theory Spec2Isabelle
  imports Complex_Main "HOL-Library.Word" "HOL-Library.AList"
begin

section \<open>The WebP reader of OpenImageIO (webpinput.cpp)\<close>

text \<open>
  The class \<open>WebpInput\<close> is embedded as a record of its member variables together
  with the part of the process state its methods act on: the rasters that
  \<open>WebPDecodeRGBA\<close> allocated and that were not freed yet, the demuxer objects that
  were not deleted yet, and the open \<open>FILE\<close> handles. A pointer is an address or
  \<open>None\<close> for \<open>NULL\<close>. Every method takes the state and returns the new one; a step
  that C leaves undefined (deleting a demuxer twice, reading through a dangling or null
  pointer, copying beyond a buffer) is a \<open>fault\<close>, the left summand of the result.
\<close>

type_synonym byte = "8 word"
type_synonym addr = nat

datatype fault = DoubleFree addr | UseAfterFree addr | NullDeref | OutOfBounds

definition bindF :: "fault + 'a \<Rightarrow> ('a \<Rightarrow> fault + 'b) \<Rightarrow> fault + 'b" where
  "bindF m f = (case m of Inl e \<Rightarrow> Inl e | Inr x \<Rightarrow> f x)"

definition wrap32 :: "int \<Rightarrow> int" where
  \<comment> \<open>the value of a C \<open>int\<close> expression, two's complement, 32 bits\<close>
  "wrap32 x = (x + 2 ^ 31) mod 2 ^ 32 - 2 ^ 31"

subsection \<open>ImageSpec (imageio.h)\<close>

text \<open>
  Modelled from the spec: \<open>ImageSpec\<close> is declared in imageio.h, which is not among the
  sources. The canvas spec of the specification has width, height, channel count, pixel
  type and a list of named attributes; \<open>attribute\<close> sets a named attribute, replacing
  an earlier value of the same name.
\<close>

datatype TypeDesc = UNKNOWN | UINT8

datatype attr_value = AttrString string | AttrInt int | AttrRational int int

record ImageSpec =
  width :: int
  height :: int
  nchannels :: int
  format :: TypeDesc
  extra_attribs :: "(string \<times> attr_value) list"

definition new_ImageSpec :: "int \<Rightarrow> int \<Rightarrow> int \<Rightarrow> TypeDesc \<Rightarrow> ImageSpec" where
  "new_ImageSpec xres yres nchans fmt =
     \<lparr>width = xres, height = yres, nchannels = nchans, format = fmt, extra_attribs = []\<rparr>"

definition attribute :: "string \<Rightarrow> attr_value \<Rightarrow> ImageSpec \<Rightarrow> ImageSpec" where
  "attribute name v sp = sp\<lparr>extra_attribs := AList.update name v (extra_attribs sp)\<rparr>"

definition find_attribute :: "ImageSpec \<Rightarrow> string \<Rightarrow> attr_value option" where
  "find_attribute sp name = map_of (extra_attribs sp) name"

subsection \<open>The codec engine (libwebp: demux.h, decode.h)\<close>

text \<open>
  The external library is represented by what its calls answer. A parsed container is
  its canvas size and its frames in order, each with its duration and its compressed
  bytes. \<open>WebPDemuxGetFrame\<close> follows the contract of demux.h: frame numbers start at
  1, number 0 asks for the last frame, the call fails on a null demuxer and on a frame
  that is not present, and it overwrites the iterator in either case. The decoder
  \<open>WebPDecodeRGBA\<close> is a parameter: a function from compressed bytes to the RGBA raster,
  or \<open>None\<close> where it returns \<open>NULL\<close>.

  In the source the compressed bytes are held by \<open>encoded_image\<close>, a vector local to
  \<open>open\<close> that is destroyed when \<open>open\<close> returns, and the library keeps pointers
  into it: the fragment of an iterator obtained after \<open>open\<close> points into memory
  that was given back. The model lets the container own the bytes of its frames, that
  is, it takes that memory to hold the bytes still, and does not represent the read as
  a fault. Nothing below depends on what a decode after \<open>open\<close> reads beyond that it
  is what the decoder is given.
\<close>

record WebPFrame =
  frame_duration :: int
  frame_payload :: "byte list"

record WebPDemuxer =
  canvas_width :: "32 word"
  canvas_height :: "32 word"
  demux_frames :: "WebPFrame list"

record WebPIterator =
  frame_num :: int
  num_frames :: int
  duration :: int
  fragment :: "byte list"

type_synonym decoder = "byte list \<Rightarrow> byte list option"

definition zero_iterator :: WebPIterator where
  "zero_iterator = \<lparr>frame_num = 0, num_frames = 0, duration = 0, fragment = []\<rparr>"

definition WebPDemuxGetFrame :: "WebPDemuxer option \<Rightarrow> int \<Rightarrow> bool \<times> WebPIterator" where
  "WebPDemuxGetFrame dmux frame_number =
     (case dmux of
        None \<Rightarrow> (False, zero_iterator)
      | Some d \<Rightarrow>
          (let n = int (length (demux_frames d)) in
           if frame_number < 0 \<or> frame_number > n then (False, zero_iterator)
           else
             (let k = (if frame_number = 0 then n else frame_number) in
              if k = 0 then (False, zero_iterator)
              else
                (let f = demux_frames d ! nat (k - 1) in
                 (True, \<lparr>frame_num = k, num_frames = n, duration = frame_duration f,
                         fragment = frame_payload f\<rparr>)))))"

subsection \<open>The session\<close>

datatype err_msg =
    NotRegularFile string
  | FailedToGetSize string
  | FileTooSmall string
  | CouldNotOpen string
  | HeaderReadFailure string nat nat
  | NotWebP string
  | ReadFailure string nat nat
  | FailedToParse string
  | CouldNotDecode string int

record WebpInput =
  m_filename :: string
  m_demux :: "addr option"
  m_iter :: WebPIterator
  m_subimage :: int
  m_decoded_image :: "addr option"
  m_image_size :: "64 word"
  m_scanline_size :: int
  m_file :: "addr option"
  m_spec :: ImageSpec
  m_errmessage :: "err_msg list"
  live_rasters :: "(addr \<times> byte list) list"
  live_demuxers :: "(addr \<times> WebPDemuxer) list"
  open_files :: "addr list"
  next_addr :: addr
  decode_calls :: nat

text \<open>
  The fields from \<open>m_filename\<close> to \<open>m_spec\<close> are the members of the class (\<open>m_spec\<close>
  is inherited from \<open>ImageInput\<close>), \<open>m_errmessage\<close> collects what \<open>errorf\<close> reports,
  and the last five fields are the store: live rasters, live demuxers, open files, the
  next address an allocation returns, and a counter of the calls of the decoder.
\<close>

definition init :: "WebpInput \<Rightarrow> WebpInput" where
  "init s = s\<lparr>m_demux := None, m_image_size := 0, m_scanline_size := 0,
              m_decoded_image := None, m_file := None, m_subimage := - 1\<rparr>"

definition errorf :: "err_msg \<Rightarrow> WebpInput \<Rightarrow> WebpInput" where
  "errorf e s = s\<lparr>m_errmessage := m_errmessage s @ [e]\<rparr>"

definition current_subimage :: "WebpInput \<Rightarrow> int" where
  "current_subimage s = m_subimage s"

subsubsection \<open>Store operations\<close>

definition fclose :: "addr \<Rightarrow> WebpInput \<Rightarrow> fault + WebpInput" where
  "fclose f s =
     (if f \<in> set (open_files s) then Inr (s\<lparr>open_files := removeAll f (open_files s)\<rparr>)
      else Inl (DoubleFree f))"

definition free :: "addr \<Rightarrow> WebpInput \<Rightarrow> fault + WebpInput" where
  "free p s =
     (case map_of (live_rasters s) p of
        None \<Rightarrow> Inl (DoubleFree p)
      | Some _ \<Rightarrow> Inr (s\<lparr>live_rasters := AList.delete p (live_rasters s)\<rparr>))"

definition WebPDemuxDelete :: "addr \<Rightarrow> WebpInput \<Rightarrow> fault + WebpInput" where
  "WebPDemuxDelete d s =
     (case map_of (live_demuxers s) d of
        None \<Rightarrow> Inl (DoubleFree d)
      | Some _ \<Rightarrow> Inr (s\<lparr>live_demuxers := AList.delete d (live_demuxers s)\<rparr>))"

definition WebPDemuxReleaseIterator :: "WebpInput \<Rightarrow> WebpInput" where
  \<comment> \<open>the library's function has an empty body\<close>
  "WebPDemuxReleaseIterator s = s"

definition deref_demux :: "WebpInput \<Rightarrow> fault + WebPDemuxer option" where
  "deref_demux s =
     (case m_demux s of
        None \<Rightarrow> Inr None
      | Some a \<Rightarrow>
          (case map_of (live_demuxers s) a of
             None \<Rightarrow> Inl (UseAfterFree a)
           | Some d \<Rightarrow> Inr (Some d)))"

definition WebPDecodeRGBA :: "decoder \<Rightarrow> byte list \<Rightarrow> WebpInput \<Rightarrow> addr option \<times> WebpInput" where
  "WebPDecodeRGBA dec bytes s =
     (let s1 = s\<lparr>decode_calls := Suc (decode_calls s)\<rparr> in
      case dec bytes of
        None \<Rightarrow> (None, s1)
      | Some raster \<Rightarrow>
          (Some (next_addr s1),
           s1\<lparr>live_rasters := (next_addr s1, raster) # live_rasters s1,
              next_addr := Suc (next_addr s1)\<rparr>))"

subsubsection \<open>close\<close>

definition close :: "WebpInput \<Rightarrow> fault + (bool \<times> WebpInput)" where
  "close s =
     bindF (case m_file s of
              Some f \<Rightarrow> bindF (fclose f s) (\<lambda>t. Inr (t\<lparr>m_file := None\<rparr>))
            | None \<Rightarrow> Inr s)
       (\<lambda>s1.
     bindF (case m_decoded_image s1 of
              Some p \<Rightarrow> bindF (free p s1) (\<lambda>t. Inr (t\<lparr>m_decoded_image := None\<rparr>))
            | None \<Rightarrow> Inr s1)
       (\<lambda>s2.
     bindF (case m_demux (WebPDemuxReleaseIterator s2) of
              Some d \<Rightarrow> WebPDemuxDelete d (WebPDemuxReleaseIterator s2)
            | None \<Rightarrow> Inr (WebPDemuxReleaseIterator s2))
       (\<lambda>s3. Inr (True, s3))))"

subsubsection \<open>seek\_subimage\<close>

definition seek_subimage :: "decoder \<Rightarrow> WebpInput \<Rightarrow> int \<Rightarrow> int \<Rightarrow> fault + (bool \<times> WebpInput)" where
  "seek_subimage dec s subimage miplevel =
     (if subimage < 0 \<or> miplevel \<noteq> 0 then Inr (False, s)
      else if m_subimage s = subimage then Inr (True, s)
      else
        (let frame_num = wrap32 (subimage + 1) in
         bindF (deref_demux s) (\<lambda>dmux.
           (case WebPDemuxGetFrame dmux frame_num of
              (found, it) \<Rightarrow>
                (let s1 = s\<lparr>m_iter := it\<rparr> in
                 if found then
                   (let s2 = s1\<lparr>m_subimage := subimage\<rparr> in
                    case WebPDecodeRGBA dec (fragment (m_iter s2)) s2 of
                      (img, s3) \<Rightarrow>
                        (let s4 = s3\<lparr>m_decoded_image := img\<rparr> in
                         if img = None then
                           bindF (close (errorf (CouldNotDecode (m_filename s4) frame_num) s4))
                             (\<lambda>(_, s5). Inr (False, s5))
                         else Inr (True, s4)))
                 else Inr (False, s1))))))"

subsubsection \<open>read\_native\_scanline\<close>

definition memcpy_from :: "WebpInput \<Rightarrow> int \<Rightarrow> int \<Rightarrow> fault + byte list" where
  \<comment> \<open>the \<open>n\<close> bytes that \<open>memcpy\<close> reads at \<open>&m_decoded_image[off]\<close>\<close>
  "memcpy_from s off n =
     (case m_decoded_image s of
        None \<Rightarrow> Inl NullDeref
      | Some p \<Rightarrow>
          (case map_of (live_rasters s) p of
             None \<Rightarrow> Inl (UseAfterFree p)
           | Some buf \<Rightarrow>
               if off < 0 \<or> n < 0 \<or> int (length buf) < off + n then Inl OutOfBounds
               else Inr (take (nat n) (drop (nat off) buf))))"

text \<open>
  The third component of the result is what was written to the caller's buffer
  \<open>data\<close>: \<open>None\<close> when nothing was copied. The product \<open>y * m_scanline_size\<close> is
  computed in \<open>long\<close>; with \<open>y\<close> below the height and both factors \<open>int\<close> values it
  does not overflow 64 bits and is left as an integer product.
\<close>

definition read_native_scanline ::
    "decoder \<Rightarrow> WebpInput \<Rightarrow> int \<Rightarrow> int \<Rightarrow> int \<Rightarrow> fault + (bool \<times> WebpInput \<times> byte list option)" where
  "read_native_scanline dec s subimage miplevel y =
     bindF (seek_subimage dec s subimage miplevel) (\<lambda>(ok, s1).
       if \<not> ok then Inr (False, s1, None)
       else if y < 0 \<or> y \<ge> height (m_spec s1) then Inr (False, s1, None)
       else
         bindF (memcpy_from s1 (y * m_scanline_size s1) (m_scanline_size s1))
           (\<lambda>row. Inr (True, s1, Some row)))"

subsubsection \<open>open\<close>

text \<open>
  What the file system and the library answer during \<open>open\<close> is a record: whether the
  name is a regular file, the size \<open>Filesystem::file_size\<close> reports (all ones on
  failure), whether \<open>fopen\<close> succeeds, the byte counts the two \<open>fread\<close> calls return,
  the result of \<open>WebPGetInfo\<close> on the header and the result of \<open>WebPDemux\<close> on the
  whole file.

  The three \<open>ImageBufAlgo\<close> calls at the end of \<open>open\<close> (pow 2.2 on the colour
  channels, premult, pow 1/2.2 on the colour channels, all in place on an image buffer
  that wraps \<open>m_decoded_image\<close> with the canvas size) are floating-point code outside
  the sources; their composition is the parameter \<open>cn\<close>, a function of width, height
  and raster. The wrapped buffer is read and written over width * height * 4 bytes.
  When \<open>m_decoded_image\<close> is null the image buffer wraps no raster of the session and
  the session is left as it is.
\<close>

record file_env =
  fs_is_regular :: bool
  fs_file_size :: "64 word"
  fs_fopen :: bool
  fs_header_read :: nat
  fs_body_read :: nat
  webp_get_info :: "(int \<times> int) option"
  webp_demux :: "WebPDemuxer option"

type_synonym normalizer = "int \<Rightarrow> int \<Rightarrow> byte list \<Rightarrow> byte list"

definition normalize_in_place :: "normalizer \<Rightarrow> WebpInput \<Rightarrow> fault + WebpInput" where
  "normalize_in_place cn s =
     (case m_decoded_image s of
        None \<Rightarrow> Inr s
      | Some p \<Rightarrow>
          (case map_of (live_rasters s) p of
             None \<Rightarrow> Inl (UseAfterFree p)
           | Some buf \<Rightarrow>
               if int (length buf) < width (m_spec s) * height (m_spec s) * 4
               then Inl OutOfBounds
               else Inr (s\<lparr>live_rasters :=
                             AList.update p (cn (width (m_spec s)) (height (m_spec s)) buf)
                               (live_rasters s)\<rparr>)))"

definition fail_closed :: "err_msg \<Rightarrow> WebpInput \<Rightarrow> fault + (bool \<times> WebpInput \<times> ImageSpec option)" where
  \<comment> \<open>the exits of \<open>open\<close> of the form \<open>errorf(...); close(); return false;\<close>\<close>
  "fail_closed e s = bindF (close (errorf e s)) (\<lambda>(_, t). Inr (False, t, None))"

definition open_parsed ::
    "normalizer \<Rightarrow> decoder \<Rightarrow> int \<Rightarrow> WebPDemuxer \<Rightarrow> WebpInput
       \<Rightarrow> fault + (bool \<times> WebpInput \<times> ImageSpec option)" where
  \<comment> \<open>lines 131 to 161 of \<open>open\<close>: \<open>s\<close> is the session with \<open>m_demux\<close> set to the
      new demuxer \<open>d\<close>, and \<open>w\<close> is the width \<open>WebPGetInfo\<close> reported\<close>
  "open_parsed cn dec w d s =
     (let nchannels = 4;
          s1 = s\<lparr>m_scanline_size := wrap32 (w * nchannels)\<rparr>;
          s2 = s1\<lparr>m_spec := new_ImageSpec (sint (canvas_width d)) (sint (canvas_height d))
                                nchannels UINT8\<rparr>;
          s3 = s2\<lparr>m_spec := attribute ''oiio:ColorSpace'' (AttrString ''sRGB'') (m_spec s2)\<rparr>;
          spec = m_spec s3
      in
      bindF (seek_subimage dec s3 0 0) (\<lambda>(ok, s4).
        if \<not> ok then Inr (False, s4, Some spec)
        else
          (let s5 = (if num_frames (m_iter s4) > 1
                     then
                       (let s' = s4\<lparr>m_spec := attribute ''oiio:Movie'' (AttrInt 1) (m_spec s4)\<rparr>;
                            delay = duration (m_iter s')
                        in s'\<lparr>m_spec := attribute ''FramesPerSecond''
                                           (AttrRational 1000 delay) (m_spec s')\<rparr>)
                     else s4)
           in bindF (normalize_in_place cn s5) (\<lambda>s6. Inr (True, s6, Some spec)))))"

definition WebpInput_open ::
    "normalizer \<Rightarrow> decoder \<Rightarrow> file_env \<Rightarrow> string \<Rightarrow> WebpInput
       \<Rightarrow> fault + (bool \<times> WebpInput \<times> ImageSpec option)" where
  "WebpInput_open cn dec env name s0 =
     (let s1 = s0\<lparr>m_filename := name\<rparr> in
      if \<not> fs_is_regular env then Inr (False, errorf (NotRegularFile (m_filename s1)) s1, None)
      else
        (let s2 = s1\<lparr>m_image_size := fs_file_size env\<rparr> in
         if m_image_size s2 = - 1
         then Inr (False, errorf (FailedToGetSize (m_filename s2)) s2, None)
         else if m_image_size s2 < 12
         then Inr (False, errorf (FileTooSmall (m_filename s2)) s2, None)
         else if \<not> fs_fopen env
         then Inr (False, errorf (CouldNotOpen (m_filename s2)) (s2\<lparr>m_file := None\<rparr>), None)
         else
           (let s3 = s2\<lparr>m_file := Some (next_addr s2),
                        open_files := next_addr s2 # open_files s2,
                        next_addr := Suc (next_addr s2)\<rparr>;
                header_size = unat (min (m_image_size s3) 64);
                numRead = fs_header_read env
            in
            if numRead \<noteq> header_size
            then fail_closed (HeaderReadFailure (m_filename s3) header_size numRead) s3
            else
              (case webp_get_info env of
                 None \<Rightarrow> fail_closed (NotWebP (m_filename s3)) s3
               | Some (w, h) \<Rightarrow>
                   (let encoded_size = unat (m_image_size s3);
                        numRead = fs_body_read env
                    in
                    if numRead \<noteq> encoded_size
                    then fail_closed (ReadFailure (m_filename s3) encoded_size numRead) s3
                    else
                      (case webp_demux env of
                         None \<Rightarrow>
                           Inr (False,
                                errorf (FailedToParse (m_filename s3)) (s3\<lparr>m_demux := None\<rparr>),
                                None)
                       | Some d \<Rightarrow>
                           open_parsed cn dec w d
                             (s3\<lparr>m_demux := Some (next_addr s3),
                                 live_demuxers := (next_addr s3, d) # live_demuxers s3,
                                 next_addr := Suc (next_addr s3)\<rparr>)))))))"

subsection \<open>A small session for evaluation\<close>

text \<open>
  A decoder double whose compressed bytes are the raster itself and which fails on an
  empty fragment; a normalizer double that clears every byte; a container of two
  frames of one pixel; a container whose second frame does not decode; a file of 100
  bytes that parses to a given container; and the object the constructor produces,
  with no resource held.
\<close>

definition stub_decode :: decoder where
  "stub_decode bytes = (if bytes = [] then None else Some bytes)"

definition stub_normalize :: normalizer where
  "stub_normalize w h raster = map (\<lambda>_. 0) raster"

definition two_frames :: WebPDemuxer where
  "two_frames =
     \<lparr>canvas_width = 1, canvas_height = 1,
      demux_frames = [\<lparr>frame_duration = 40, frame_payload = [10, 20, 30, 128]\<rparr>,
                      \<lparr>frame_duration = 70, frame_payload = [1, 2, 3, 4]\<rparr>]\<rparr>"

definition broken_second :: WebPDemuxer where
  "broken_second =
     \<lparr>canvas_width = 1, canvas_height = 1,
      demux_frames = [\<lparr>frame_duration = 40, frame_payload = [10, 20, 30, 128]\<rparr>,
                      \<lparr>frame_duration = 40, frame_payload = []\<rparr>]\<rparr>"

definition one_frame :: WebPDemuxer where
  "one_frame =
     \<lparr>canvas_width = 1, canvas_height = 1,
      demux_frames = [\<lparr>frame_duration = 0, frame_payload = [10, 20, 30, 128]\<rparr>]\<rparr>"

definition file_of :: "WebPDemuxer \<Rightarrow> file_env" where
  "file_of d =
     \<lparr>fs_is_regular = True, fs_file_size = 100, fs_fopen = True, fs_header_read = 64,
      fs_body_read = 100, webp_get_info = Some (1, 1), webp_demux = Some d\<rparr>"

definition new_WebpInput :: WebpInput where
  "new_WebpInput =
     init \<lparr>m_filename = [], m_demux = None, m_iter = zero_iterator, m_subimage = 0,
           m_decoded_image = None, m_image_size = 0, m_scanline_size = 0, m_file = None,
           m_spec = new_ImageSpec 0 0 0 UNKNOWN, m_errmessage = [], live_rasters = [],
           live_demuxers = [], open_files = [], next_addr = 1, decode_calls = 0\<rparr>"

definition opened_with :: "WebPDemuxer \<Rightarrow> WebpInput" where
  \<comment> \<open>the session after \<open>open\<close> on a file that parses to the container \<open>d\<close>, when
      \<open>d\<close> is one of the containers above\<close>
  "opened_with d =
     new_WebpInput
       \<lparr>m_filename := ''a.webp'', m_demux := Some 2,
        m_iter := \<lparr>frame_num = 1, num_frames = int (length (demux_frames d)),
                   duration = frame_duration (hd (demux_frames d)),
                   fragment = [10, 20, 30, 128]\<rparr>,
        m_subimage := 0, m_decoded_image := Some 3, m_image_size := 100,
        m_scanline_size := 4, m_file := Some 1,
        m_spec :=
          \<lparr>width = 1, height = 1, nchannels = 4, format = UINT8,
           extra_attribs =
             (''oiio:ColorSpace'', AttrString ''sRGB'') #
             (if 1 < length (demux_frames d)
              then [(''oiio:Movie'', AttrInt 1),
                    (''FramesPerSecond'',
                     AttrRational 1000 (frame_duration (hd (demux_frames d))))]
              else [])\<rparr>,
        live_rasters := [(3, [0, 0, 0, 0])], live_demuxers := [(2, d)],
        open_files := [1], next_addr := 4, decode_calls := 1\<rparr>"

definition at_second_frame :: WebpInput where
  \<comment> \<open>the session after \<open>seek_subimage(1, 0)\<close> on \<open>opened_with two_frames\<close>\<close>
  "at_second_frame =
     (opened_with two_frames)
       \<lparr>m_iter := \<lparr>frame_num = 2, num_frames = 2, duration = 70, fragment = [1, 2, 3, 4]\<rparr>,
        m_subimage := 1, m_decoded_image := Some 4,
        live_rasters := [(4, [1, 2, 3, 4]), (3, [0, 0, 0, 0])],
        next_addr := 5, decode_calls := 2\<rparr>"

definition closed_session :: "WebPDemuxer \<Rightarrow> WebpInput" where
  \<comment> \<open>the session after \<open>close\<close> on \<open>opened_with d\<close>\<close>
  "closed_session d =
     (opened_with d)
       \<lparr>m_file := None, m_decoded_image := None, live_rasters := [],
        live_demuxers := [], open_files := []\<rparr>"

definition after_failed_decode :: WebpInput where
  \<comment> \<open>the session after \<open>seek_subimage(1, 0)\<close> on \<open>opened_with broken_second\<close>\<close>
  "after_failed_decode =
     (opened_with broken_second)
       \<lparr>m_iter := \<lparr>frame_num = 2, num_frames = 2, duration = 40, fragment = []\<rparr>,
        m_subimage := 1, m_decoded_image := None, m_file := None,
        m_errmessage := [CouldNotDecode ''a.webp'' 2],
        live_rasters := [(3, [0, 0, 0, 0])], live_demuxers := [], open_files := [],
        decode_calls := 2\<rparr>"

definition sub_frame :: WebPDemuxer where
  \<comment> \<open>a canvas of two pixels in one row; the second frame covers one pixel of it\<close>
  "sub_frame =
     \<lparr>canvas_width = 2, canvas_height = 1,
      demux_frames = [\<lparr>frame_duration = 40,
                       frame_payload = [10, 20, 30, 128, 40, 50, 60, 255]\<rparr>,
                      \<lparr>frame_duration = 40, frame_payload = [1, 2, 3, 4]\<rparr>]\<rparr>"

definition sub_frame_file :: file_env where
  "sub_frame_file = (file_of sub_frame)\<lparr>webp_get_info := Some (2, 1)\<rparr>"

definition opened_sub_frame :: WebpInput where
  \<comment> \<open>the session after \<open>open\<close> on \<open>sub_frame_file\<close>\<close>
  "opened_sub_frame =
     (opened_with sub_frame)
       \<lparr>m_iter := \<lparr>frame_num = 1, num_frames = 2, duration = 40,
                   fragment = [10, 20, 30, 128, 40, 50, 60, 255]\<rparr>,
        m_scanline_size := 8,
        m_spec :=
          \<lparr>width = 2, height = 1, nchannels = 4, format = UINT8,
           extra_attribs =
             [(''oiio:ColorSpace'', AttrString ''sRGB''), (''oiio:Movie'', AttrInt 1),
              (''FramesPerSecond'', AttrRational 1000 40)]\<rparr>,
        live_rasters := [(3, [0, 0, 0, 0, 0, 0, 0, 0])]\<rparr>"

subsection \<open>Predicates on sessions\<close>

definition ptr_live :: "addr option \<Rightarrow> addr list \<Rightarrow> bool" where
  "ptr_live p live = (case p of None \<Rightarrow> True | Some a \<Rightarrow> a \<in> set live)"

definition resources_ok :: "WebpInput \<Rightarrow> bool" where
  \<comment> \<open>no member pointer dangles\<close>
  "resources_ok s \<longleftrightarrow>
     ptr_live (m_file s) (open_files s) \<and>
     ptr_live (m_decoded_image s) (map fst (live_rasters s)) \<and>
     ptr_live (m_demux s) (map fst (live_demuxers s))"

definition released :: "WebpInput \<Rightarrow> WebpInput" where
  \<comment> \<open>the session with the three resources of \<open>close\<close> given back\<close>
  "released s =
     s\<lparr>m_file := None, m_decoded_image := None,
       open_files := (case m_file s of None \<Rightarrow> open_files s
                      | Some f \<Rightarrow> removeAll f (open_files s)),
       live_rasters := (case m_decoded_image s of None \<Rightarrow> live_rasters s
                        | Some p \<Rightarrow> AList.delete p (live_rasters s)),
       live_demuxers := (case m_demux s of None \<Rightarrow> live_demuxers s
                         | Some d \<Rightarrow> AList.delete d (live_demuxers s))\<rparr>"

subsection \<open>ColorNormalizer\<close>

text \<open>
  Modelled from the spec: \<open>ImageBufAlgo::pow\<close> and \<open>ImageBufAlgo::premult\<close> are
  defined in imagebufalgo, which is not among the sources. Section 4.2 of the
  specification gives the transform on a colour sample \<open>v\<close> and the alpha \<open>a\<close> of its
  pixel, both in the unit interval after normalizing the 8-bit sample: linearize (power
  2.2), premultiply (times \<open>a\<close>), re-encode (power 1/2.2); the alpha channel is left
  untouched. The result is stored as an 8-bit sample again, rounded to the nearest
  value.
\<close>

definition to_unit :: "byte \<Rightarrow> real" where
  "to_unit b = real (unat b) / 255"

definition from_unit :: "real \<Rightarrow> byte" where
  "from_unit x = of_nat (nat \<lfloor>x * 255 + 1 / 2\<rfloor>)"

definition linearize :: "real \<Rightarrow> real" where
  "linearize v = v powr (22 / 10)"

definition premultiply :: "real \<Rightarrow> real \<Rightarrow> real" where
  "premultiply v a = v * a"

definition reencode :: "real \<Rightarrow> real" where
  "reencode v = v powr (1 / (22 / 10))"

definition normalize_channel :: "real \<Rightarrow> real \<Rightarrow> real" where
  "normalize_channel v a = reencode (premultiply (linearize v) a)"

definition normalize_pixel :: "byte \<times> byte \<times> byte \<times> byte \<Rightarrow> byte \<times> byte \<times> byte \<times> byte" where
  "normalize_pixel px =
     (case px of (r, g, b, a) \<Rightarrow>
        (from_unit (normalize_channel (to_unit r) (to_unit a)),
         from_unit (normalize_channel (to_unit g) (to_unit a)),
         from_unit (normalize_channel (to_unit b) (to_unit a)),
         a))"

fun ColorNormalizer :: "byte list \<Rightarrow> byte list" where
  "ColorNormalizer (r # g # b # a # rest) =
     (case normalize_pixel (r, g, b, a) of
        (r', g', b', a') \<Rightarrow> r' # g' # b' # a' # ColorNormalizer rest)"
| "ColorNormalizer rest = rest"

section \<open>Properties\<close>

subsection \<open>The fixed sessions are what the code computes\<close>

lemma open_two_frames:
  "WebpInput_open stub_normalize stub_decode (file_of two_frames) ''a.webp'' new_WebpInput
     = Inr (True, opened_with two_frames,
            Some \<lparr>width = 1, height = 1, nchannels = 4, format = UINT8,
                  extra_attribs = [(''oiio:ColorSpace'', AttrString ''sRGB'')]\<rparr>)"
  by code_simp

lemma open_broken_second:
  "WebpInput_open stub_normalize stub_decode (file_of broken_second) ''a.webp'' new_WebpInput
     = Inr (True, opened_with broken_second,
            Some \<lparr>width = 1, height = 1, nchannels = 4, format = UINT8,
                  extra_attribs = [(''oiio:ColorSpace'', AttrString ''sRGB'')]\<rparr>)"
  by code_simp

lemma open_one_frame:
  "WebpInput_open stub_normalize stub_decode (file_of one_frame) ''a.webp'' new_WebpInput
     = Inr (True, opened_with one_frame,
            Some \<lparr>width = 1, height = 1, nchannels = 4, format = UINT8,
                  extra_attribs = [(''oiio:ColorSpace'', AttrString ''sRGB'')]\<rparr>)"
  by code_simp

lemma seek_second_frame:
  "seek_subimage stub_decode (opened_with two_frames) 1 0 = Inr (True, at_second_frame)"
  by code_simp

lemma seek_broken_frame:
  "seek_subimage stub_decode (opened_with broken_second) 1 0 = Inr (False, after_failed_decode)"
  by code_simp

lemma close_opened:
  "close (opened_with two_frames) = Inr (True, closed_session two_frames)"
  by code_simp

lemma opened_cursor: "m_subimage (opened_with d) = 0"
  by (simp add: opened_with_def)

lemma opened_resources_ok: "resources_ok (opened_with d)"
  by (simp add: resources_ok_def ptr_live_def opened_with_def)

lemma released_opened: "released (opened_with d) = closed_session d"
  by (simp add: released_def closed_session_def opened_with_def new_WebpInput_def init_def)

subsection \<open>close\<close>

lemma close_returns:
  "close s = Inr (b, s') \<Longrightarrow> b \<and> s' = released s"
  by (auto simp: close_def bindF_def fclose_def free_def WebPDemuxDelete_def
      WebPDemuxReleaseIterator_def released_def
      split: option.splits if_splits sum.splits)

lemma close_resources_ok:
  "resources_ok s \<Longrightarrow> close s = Inr (True, released s)"
  by (auto simp: close_def bindF_def fclose_def free_def WebPDemuxDelete_def
      WebPDemuxReleaseIterator_def released_def resources_ok_def ptr_live_def
      map_of_eq_None_iff
      split: option.splits if_splits sum.splits)

lemma map_of_delete_self: "map_of (AList.delete k al) k = None"
  by (simp add: delete_conv')

lemma released_no_container: "deref_demux (released s) \<noteq> Inr (Some d)"
  by (simp add: deref_demux_def released_def map_of_delete_self split: option.splits)

text \<open>
  \<open>close\<close> sets \<open>m_file\<close> and \<open>m_decoded_image\<close> to null after releasing them but
  leaves \<open>m_demux\<close> as it is: on any session that holds a demuxer, a second \<open>close\<close>
  deletes the demuxer a second time.
\<close>

lemma close_again_faults:
  "m_demux s = Some d \<Longrightarrow> close (released s) = Inl (DoubleFree d)"
  by (simp add: close_def bindF_def WebPDemuxDelete_def WebPDemuxReleaseIterator_def
      released_def map_of_delete_self)

text \<open>
  Claim C5 (close always succeeds and is idempotent). On the code the claim fails:
  after a successful \<open>open\<close>, the first \<open>close\<close> returns true and releases the
  file, the raster and the demuxer, and \<open>m_demux\<close> still holds the address of the
  deleted demuxer; the second \<open>close\<close> passes it to \<open>WebPDemuxDelete\<close> again.
\<close>

theorem close_twice_deletes_demuxer_twice:
  "close (opened_with two_frames) = Inr (True, closed_session two_frames) \<and>
   m_demux (closed_session two_frames) = Some 2 \<and>
   close (closed_session two_frames) = Inl (DoubleFree 2)"
  by code_simp

subsection \<open>seek\_subimage\<close>

lemma seek_True_cursor:
  "seek_subimage dec s k m = Inr (True, s') \<Longrightarrow> m_subimage s' = k \<and> 0 \<le> k \<and> m = 0"
  by (auto simp: seek_subimage_def bindF_def Let_def WebPDecodeRGBA_def
      split: if_splits sum.splits prod.splits option.splits)

text \<open>
  A seek that decodes a frame stores the decoder's output, as it is, in a new raster
  and leaves every raster that was live before in the store.
\<close>

lemma seek_new_frame_rasters:
  "seek_subimage dec s k m = Inr (True, s') \<Longrightarrow> m_subimage s \<noteq> k \<Longrightarrow>
     \<exists>raster. dec (fragment (m_iter s')) = Some raster \<and>
       m_decoded_image s' = Some (next_addr s) \<and>
       live_rasters s' = (next_addr s, raster) # live_rasters s"
  by (auto simp: seek_subimage_def bindF_def Let_def WebPDecodeRGBA_def
      split: if_splits sum.splits prod.splits option.splits)

text \<open>
  Claim C1 (seeking the current frame is a no-op). When the cursor is at frame \<open>k\<close>,
  \<open>seek_subimage(k, 0)\<close> returns true and the whole state is the same: cursor,
  rasters, container, and the count of decoder calls. And whenever a seek to \<open>k\<close>
  succeeds, seeking \<open>k\<close> again succeeds without changing the state it left, so the
  raster is the same bytes and the decoder ran only in the first call.
\<close>

theorem seek_same_frame_idempotent:
  "(0 \<le> k \<and> m_subimage s = k \<longrightarrow> seek_subimage dec s k 0 = Inr (True, s)) \<and>
   (seek_subimage dec s k 0 = Inr (True, s') \<longrightarrow> seek_subimage dec s' k 0 = Inr (True, s'))"
proof (intro conjI impI)
  assume "0 \<le> k \<and> m_subimage s = k"
  then show "seek_subimage dec s k 0 = Inr (True, s)"
    by (simp add: seek_subimage_def)
next
  assume "seek_subimage dec s k 0 = Inr (True, s')"
  then have "m_subimage s' = k \<and> 0 \<le> k" using seek_True_cursor by blast
  then show "seek_subimage dec s' k 0 = Inr (True, s')"
    by (simp add: seek_subimage_def)
qed

theorem seek_same_frame_idempotent_witness:
  "(0::int) \<le> 0 \<and> m_subimage (opened_with two_frames) = 0 \<and>
   seek_subimage stub_decode (opened_with two_frames) 0 0 = Inr (True, opened_with two_frames) \<and>
   seek_subimage stub_decode (opened_with two_frames) 1 0 = Inr (True, at_second_frame) \<and>
   seek_subimage stub_decode at_second_frame 1 0 = Inr (True, at_second_frame)"
  using seek_same_frame_idempotent [where k = 0 and s = "opened_with two_frames" and dec = stub_decode]
    seek_same_frame_idempotent [where k = 1 and s = "opened_with two_frames" and dec = stub_decode
      and s' = at_second_frame]
    seek_second_frame opened_cursor [of two_frames]
  by simp

text \<open>
  Claim C9 (negative index and mip level other than 0 are rejected first). The guard
  is the first statement of \<open>seek_subimage\<close>: the call returns false and the state is
  the same, also when the index asked for is the current one. The code reports the
  failure as the boolean result; it sets no error message on this path.
\<close>

theorem seek_rejects_negative_and_mip:
  "subimage < 0 \<or> miplevel \<noteq> 0 \<Longrightarrow> seek_subimage dec s subimage miplevel = Inr (False, s)"
  by (auto simp: seek_subimage_def)

theorem seek_rejects_negative_and_mip_witness:
  "seek_subimage stub_decode (opened_with two_frames) (- 1) 0 = Inr (False, opened_with two_frames) \<and>
   m_subimage (opened_with two_frames) = 0 \<and>
   seek_subimage stub_decode (opened_with two_frames) 0 1 = Inr (False, opened_with two_frames)"
  using seek_rejects_negative_and_mip [where subimage = "- 1" and miplevel = 0
      and s = "opened_with two_frames" and dec = stub_decode]
    seek_rejects_negative_and_mip [where subimage = 0 and miplevel = 1
      and s = "opened_with two_frames" and dec = stub_decode]
    opened_cursor [of two_frames]
  by simp

text \<open>
  Claim C10 (close keeps the cursor). On a session none of whose pointers dangles,
  \<open>close\<close> returns true; afterwards \<open>current_subimage\<close> answers what it answered
  before, no raster is held and no container can be reached, and a seek to the old
  index, when that is a frame index, returns true through the shortcut and changes
  nothing.
\<close>

theorem cursor_survives_close:
  assumes "resources_ok s"
  shows "close s = Inr (True, released s) \<and>
         current_subimage (released s) = current_subimage s \<and>
         m_decoded_image (released s) = None \<and>
         (\<forall>d. deref_demux (released s) \<noteq> Inr (Some d)) \<and>
         (0 \<le> m_subimage s \<longrightarrow>
            seek_subimage dec (released s) (m_subimage s) 0 = Inr (True, released s))"
proof -
  have c: "close s = Inr (True, released s)"
    using assms by (rule close_resources_ok)
  have k: "m_subimage (released s) = m_subimage s"
    by (simp add: released_def)
  have "0 \<le> m_subimage s \<longrightarrow>
          seek_subimage dec (released s) (m_subimage s) 0 = Inr (True, released s)"
    using k by (simp add: seek_subimage_def)
  moreover have "m_decoded_image (released s) = None"
    by (simp add: released_def)
  ultimately show ?thesis
    using c k released_no_container by (simp add: current_subimage_def)
qed

theorem cursor_survives_close_witness:
  "resources_ok (opened_with two_frames) \<and>
   close (opened_with two_frames) = Inr (True, closed_session two_frames) \<and>
   current_subimage (closed_session two_frames) = 0 \<and>
   m_decoded_image (closed_session two_frames) = None \<and>
   seek_subimage stub_decode (closed_session two_frames) 0 0
     = Inr (True, closed_session two_frames)"
  using cursor_survives_close [OF opened_resources_ok [of two_frames], where dec = stub_decode]
    opened_resources_ok [of two_frames] released_opened [of two_frames] opened_cursor [of two_frames]
  by (simp add: current_subimage_def)

text \<open>
  Claim C4 (one live raster; the old one is released before the new one is stored).
  On the code the claim fails: \<open>seek_subimage\<close> assigns the new raster to
  \<open>m_decoded_image\<close> without freeing the one it held. After \<open>open\<close> and a seek to the
  second frame two rasters are live, and the one of the first frame (address 3) is no
  longer referenced by the session.
\<close>

theorem seek_leaks_previous_raster:
  "seek_subimage stub_decode (opened_with two_frames) 1 0 = Inr (True, at_second_frame) \<and>
   m_decoded_image (opened_with two_frames) = Some 3 \<and>
   m_decoded_image at_second_frame = Some 4 \<and>
   map fst (live_rasters at_second_frame) = [4, 3]"
  by code_simp

text \<open>
  Claim C3 (the normalizer runs once on every newly decoded frame). On the code the
  claim fails: the normalizer runs at the end of \<open>open\<close> only. The raster of the first
  frame is the normalized decoder output; the raster a later seek stores for the second
  frame is the decoder output itself.
\<close>

theorem seek_skips_normalizer:
  "WebpInput_open stub_normalize stub_decode (file_of two_frames) ''a.webp'' new_WebpInput
     = Inr (True, opened_with two_frames,
            Some \<lparr>width = 1, height = 1, nchannels = 4, format = UINT8,
                  extra_attribs = [(''oiio:ColorSpace'', AttrString ''sRGB'')]\<rparr>) \<and>
   map_of (live_rasters (opened_with two_frames)) 3 = Some (stub_normalize 1 1 [10, 20, 30, 128]) \<and>
   seek_subimage stub_decode (opened_with two_frames) 1 0 = Inr (True, at_second_frame) \<and>
   m_decoded_image at_second_frame = Some 4 \<and>
   map_of (live_rasters at_second_frame) 4 = Some [1, 2, 3, 4] \<and>
   stub_normalize 1 1 [1, 2, 3, 4] \<noteq> [1, 2, 3, 4]"
  by code_simp


text \<open>
  Claim C2 (a failing seek commits nothing). As stated the claim fails on the code when
  the decode fails: the cursor was already moved to the new index, the raster slot is
  overwritten with null, and \<open>close\<close> is called.
\<close>

theorem failed_decode_commits_state:
  "seek_subimage stub_decode (opened_with broken_second) 1 0 = Inr (False, after_failed_decode) \<and>
   m_subimage (opened_with broken_second) = 0 \<and>
   m_subimage after_failed_decode = 1 \<and>
   m_decoded_image (opened_with broken_second) = Some 3 \<and>
   m_decoded_image after_failed_decode = None"
  by code_simp

text \<open>
  Claim C2, amended. A seek that returns false because the frame lookup fails leaves
  the session as it was, apart from the frame iterator, which the lookup overwrites:
  cursor, raster, container and file are unchanged. A seek that returns false because
  the decoder fails has called \<open>close\<close>: the file handle the session held is closed
  and \<open>m_file\<close> is null, the container the session held is deleted and none can be
  reached, and the raster slot \<open>m_decoded_image\<close> is null. Nothing is said about the
  cursor or about the raster that was held before.
\<close>

theorem failed_seek_effects:
  assumes "seek_subimage dec s k 0 = Inr (False, s')"
    and "0 \<le> k" and "m_subimage s \<noteq> k"
    and "deref_demux s = Inr dmux"
    and "WebPDemuxGetFrame dmux (wrap32 (k + 1)) = (found, it)"
  shows "(\<not> found \<longrightarrow> s' = s\<lparr>m_iter := it\<rparr>) \<and>
         (found \<longrightarrow>
            dec (fragment it) = None \<and>
            m_file s' = None \<and>
            (case m_file s of None \<Rightarrow> True | Some f \<Rightarrow> f \<notin> set (open_files s')) \<and>
            (case m_demux s of None \<Rightarrow> True
             | Some a \<Rightarrow> map_of (live_demuxers s') a = None) \<and>
            (\<forall>d. deref_demux s' \<noteq> Inr (Some d)) \<and>
            m_decoded_image s' = None)"
proof (cases found)
  case False
  then show ?thesis
    using assms by (simp add: seek_subimage_def bindF_def)
next
  case True
  let ?t = "errorf (CouldNotDecode (m_filename s) (wrap32 (k + 1)))
              (s\<lparr>m_iter := it, m_subimage := k, decode_calls := Suc (decode_calls s),
                 m_decoded_image := None\<rparr>)"
  have d: "dec (fragment it) = None"
    using assms True
    by (auto simp: seek_subimage_def bindF_def Let_def WebPDecodeRGBA_def
        split: option.splits)
  have "\<exists>b. close ?t = Inr (b, s')"
    using assms True d
    by (auto simp: seek_subimage_def bindF_def Let_def WebPDecodeRGBA_def errorf_def
        split: sum.splits prod.splits)
  then have eq: "s' = released ?t"
    using close_returns by blast
  have slots: "m_file s' = None \<and> m_decoded_image s' = None \<and>
               (\<forall>d. deref_demux s' \<noteq> Inr (Some d))"
    using eq released_no_container by (simp add: released_def)
  have closed_file: "(case m_file s of None \<Rightarrow> True | Some f \<Rightarrow> f \<notin> set (open_files s'))"
    using eq by (simp add: released_def errorf_def split: option.splits)
  have deleted_demux: "(case m_demux s of None \<Rightarrow> True
              | Some a \<Rightarrow> map_of (live_demuxers s') a = None)"
    using eq by (simp add: released_def errorf_def map_of_delete_self split: option.splits)
  show ?thesis
    using d True slots closed_file deleted_demux by simp
qed

lemma lookup_past_end:
  "deref_demux (opened_with two_frames) = Inr (Some two_frames) \<and>
   WebPDemuxGetFrame (Some two_frames) (wrap32 (2 + 1)) = (False, zero_iterator) \<and>
   seek_subimage stub_decode (opened_with two_frames) 2 0
     = Inr (False, (opened_with two_frames)\<lparr>m_iter := zero_iterator\<rparr>)"
  by code_simp

lemma lookup_broken:
  "deref_demux (opened_with broken_second) = Inr (Some broken_second) \<and>
   WebPDemuxGetFrame (Some broken_second) (wrap32 (1 + 1))
     = (True, \<lparr>frame_num = 2, num_frames = 2, duration = 40, fragment = []\<rparr>) \<and>
   m_file (opened_with broken_second) = Some 1 \<and>
   m_demux (opened_with broken_second) = Some 2"
  by code_simp

theorem failed_seek_effects_witness:
  "seek_subimage stub_decode (opened_with two_frames) 2 0
     = Inr (False, (opened_with two_frames)\<lparr>m_iter := zero_iterator\<rparr>) \<and>
   seek_subimage stub_decode (opened_with broken_second) 1 0 = Inr (False, after_failed_decode) \<and>
   stub_decode [] = None \<and> m_file after_failed_decode = None \<and>
   1 \<notin> set (open_files after_failed_decode) \<and>
   map_of (live_demuxers after_failed_decode) 2 = None \<and>
   (\<forall>d. deref_demux after_failed_decode \<noteq> Inr (Some d)) \<and>
   m_decoded_image after_failed_decode = None"
  using failed_seek_effects [where dec = stub_decode and s = "opened_with two_frames" and k = 2
      and s' = "(opened_with two_frames)\<lparr>m_iter := zero_iterator\<rparr>"
      and dmux = "Some two_frames" and found = False and it = zero_iterator]
    failed_seek_effects [where dec = stub_decode and s = "opened_with broken_second" and k = 1
      and s' = after_failed_decode and dmux = "Some broken_second" and found = True
      and it = "\<lparr>frame_num = 2, num_frames = 2, duration = 40, fragment = []\<rparr>"]
    lookup_past_end lookup_broken seek_broken_frame opened_cursor [of two_frames]
    opened_cursor [of broken_second]
  by simp


text \<open>On a session none of whose pointers dangles, \<open>seek_subimage\<close> returns.\<close>

lemma seek_returns:
  assumes "resources_ok s"
  shows "\<exists>b s'. seek_subimage dec s k m = Inr (b, s')"
proof -
  have "\<exists>dmux. deref_demux s = Inr dmux"
  proof (cases "m_demux s")
    case None
    then show ?thesis by (simp add: deref_demux_def)
  next
    case (Some a)
    then have "a \<in> fst ` set (live_demuxers s)"
      using assms by (simp add: resources_ok_def ptr_live_def)
    then have "map_of (live_demuxers s) a \<noteq> None"
      by (simp add: map_of_eq_None_iff)
    then show ?thesis
      using Some by (auto simp: deref_demux_def)
  qed
  then obtain dmux where dm: "deref_demux s = Inr dmux" ..
  obtain found it where gf: "WebPDemuxGetFrame dmux (wrap32 (k + 1)) = (found, it)"
    by (cases "WebPDemuxGetFrame dmux (wrap32 (k + 1))")
  let ?t = "errorf (CouldNotDecode (m_filename s) (wrap32 (k + 1)))
              (s\<lparr>m_iter := it, m_subimage := k, decode_calls := Suc (decode_calls s),
                 m_decoded_image := None\<rparr>)"
  have "resources_ok ?t"
    using assms by (simp add: resources_ok_def ptr_live_def errorf_def)
  then have "close ?t = Inr (True, released ?t)"
    by (rule close_resources_ok)
  then show ?thesis
    using dm gf
    by (auto simp: seek_subimage_def bindF_def Let_def WebPDecodeRGBA_def errorf_def
        split: option.splits)
qed

lemma seek_frame:
  "seek_subimage dec s k m = Inr (b, s') \<Longrightarrow>
     m_scanline_size s' = m_scanline_size s \<and> m_spec s' = m_spec s"
  by (auto simp: seek_subimage_def bindF_def Let_def WebPDecodeRGBA_def errorf_def released_def
      dest!: close_returns
      split: if_splits sum.splits prod.splits option.splits)

lemma normalize_frame:
  "normalize_in_place cn s = Inr s' \<Longrightarrow>
     m_scanline_size s' = m_scanline_size s \<and> m_spec s' = m_spec s"
  by (auto simp: normalize_in_place_def split: option.splits if_splits)

lemma fail_closed_False: "fail_closed e s \<noteq> Inr (True, t, sp)"
  by (auto simp: fail_closed_def bindF_def split: sum.splits prod.splits)

lemma wrap32_id: "- (2 ^ 31) \<le> x \<Longrightarrow> x < 2 ^ 31 \<Longrightarrow> wrap32 x = x"
  by (simp add: wrap32_def)

lemma seek_first_frame:
  assumes "seek_subimage dec s 0 0 = Inr (True, s')" and "m_subimage s \<noteq> 0"
    and "deref_demux s = Inr (Some d)"
  shows "num_frames (m_iter s') = int (length (demux_frames d)) \<and>
         duration (m_iter s') = frame_duration (hd (demux_frames d))"
  using assms
  by (auto simp: seek_subimage_def bindF_def Let_def WebPDecodeRGBA_def wrap32_def
      WebPDemuxGetFrame_def hd_conv_nth
      split: if_splits sum.splits prod.splits option.splits)

subsection \<open>open\<close>

lemma open_parsed_TrueD:
  assumes "open_parsed cn dec w d s = Inr (True, t, sp)"
  shows "\<exists>s4. seek_subimage dec
                (s\<lparr>m_scanline_size := wrap32 (w * 4),
                   m_spec := attribute ''oiio:ColorSpace'' (AttrString ''sRGB'')
                     (new_ImageSpec (sint (canvas_width d)) (sint (canvas_height d)) 4 UINT8)\<rparr>)
                0 0 = Inr (True, s4) \<and>
              normalize_in_place cn
                (if 1 < num_frames (m_iter s4)
                 then s4\<lparr>m_spec := attribute ''FramesPerSecond''
                                      (AttrRational 1000 (duration (m_iter s4)))
                                      (attribute ''oiio:Movie'' (AttrInt 1) (m_spec s4))\<rparr>
                 else s4) = Inr t"
  using assms
  by (auto simp: open_parsed_def Let_def bindF_def split: sum.splits prod.splits if_splits)

lemma open_parsed_scanline_size:
  assumes "open_parsed cn dec w d s = Inr (True, t, sp)"
  shows "m_scanline_size t = wrap32 (w * 4)"
proof -
  let ?s3 = "s\<lparr>m_scanline_size := wrap32 (w * 4),
               m_spec := attribute ''oiio:ColorSpace'' (AttrString ''sRGB'')
                           (new_ImageSpec (sint (canvas_width d)) (sint (canvas_height d)) 4 UINT8)\<rparr>"
  let ?s5 = "\<lambda>s4. if 1 < num_frames (m_iter s4)
                 then s4\<lparr>m_spec := attribute ''FramesPerSecond''
                                      (AttrRational 1000 (duration (m_iter s4)))
                                      (attribute ''oiio:Movie'' (AttrInt 1) (m_spec s4))\<rparr>
                 else s4"
  obtain s4 where sk: "seek_subimage dec ?s3 0 0 = Inr (True, s4)"
    and nm: "normalize_in_place cn (?s5 s4) = Inr t"
    using open_parsed_TrueD [OF assms] by blast
  have "m_scanline_size t = m_scanline_size (?s5 s4)"
    using normalize_frame [OF nm] by simp
  also have "\<dots> = m_scanline_size s4" by simp
  also have "\<dots> = m_scanline_size ?s3"
    using seek_frame [OF sk] by simp
  finally show ?thesis by simp
qed

lemma open_parsed_spec:
  assumes "open_parsed cn dec w d s = Inr (True, t, sp)"
    and "m_subimage s \<noteq> 0" and "deref_demux s = Inr (Some d)"
  shows "m_spec t =
           (let base = attribute ''oiio:ColorSpace'' (AttrString ''sRGB'')
                         (new_ImageSpec (sint (canvas_width d)) (sint (canvas_height d)) 4 UINT8)
            in if 1 < length (demux_frames d)
               then attribute ''FramesPerSecond''
                      (AttrRational 1000 (frame_duration (hd (demux_frames d))))
                      (attribute ''oiio:Movie'' (AttrInt 1) base)
               else base)"
proof -
  let ?s3 = "s\<lparr>m_scanline_size := wrap32 (w * 4),
               m_spec := attribute ''oiio:ColorSpace'' (AttrString ''sRGB'')
                           (new_ImageSpec (sint (canvas_width d)) (sint (canvas_height d)) 4 UINT8)\<rparr>"
  let ?s5 = "\<lambda>s4. if 1 < num_frames (m_iter s4)
                 then s4\<lparr>m_spec := attribute ''FramesPerSecond''
                                      (AttrRational 1000 (duration (m_iter s4)))
                                      (attribute ''oiio:Movie'' (AttrInt 1) (m_spec s4))\<rparr>
                 else s4"
  obtain s4 where sk: "seek_subimage dec ?s3 0 0 = Inr (True, s4)"
    and nm: "normalize_in_place cn (?s5 s4) = Inr t"
    using open_parsed_TrueD [OF assms(1)] by blast
  have cur: "m_subimage ?s3 \<noteq> 0" using assms(2) by simp
  have "deref_demux ?s3 = deref_demux s"
    by (simp add: deref_demux_def split: option.splits)
  then have dm: "deref_demux ?s3 = Inr (Some d)"
    using assms(3) by simp
  have it: "num_frames (m_iter s4) = int (length (demux_frames d)) \<and>
            duration (m_iter s4) = frame_duration (hd (demux_frames d))"
    using seek_first_frame [OF sk cur dm] .
  have sp4: "m_spec s4 = m_spec ?s3"
    using seek_frame [OF sk] by simp
  have "m_spec t = m_spec (?s5 s4)"
    using normalize_frame [OF nm] by simp
  then show ?thesis
    using it sp4 by (simp add: Let_def)
qed

lemma open_TrueD:
  assumes "WebpInput_open cn dec env name s0 = Inr (True, t, sp)"
  shows "\<exists>w h d. webp_get_info env = Some (w, h) \<and> webp_demux env = Some d \<and>
           open_parsed cn dec w d
             (s0\<lparr>m_filename := name, m_image_size := fs_file_size env,
                 m_file := Some (next_addr s0),
                 open_files := next_addr s0 # open_files s0,
                 m_demux := Some (Suc (next_addr s0)),
                 live_demuxers := (Suc (next_addr s0), d) # live_demuxers s0,
                 next_addr := Suc (Suc (next_addr s0))\<rparr>) = Inr (True, t, sp)"
  using assms
  by (auto simp: WebpInput_open_def Let_def errorf_def fail_closed_False
      split: if_splits option.splits prod.splits)

text \<open>
  The animation attributes on the member \<open>m_spec\<close>. For a session as the constructor
  leaves it, a successful \<open>open\<close> of a container with more than one frame leaves
  \<open>m_spec\<close> with the attribute oiio:Movie = 1 and FramesPerSecond = (1000, duration of
  the first frame); with at most one frame neither attribute is present.
\<close>

lemma open_animation_metadata:
  assumes "WebpInput_open cn dec env name (init s0) = Inr (True, s, sp)"
    and "webp_demux env = Some d"
  shows "(1 < length (demux_frames d) \<longrightarrow>
            find_attribute (m_spec s) ''oiio:Movie'' = Some (AttrInt 1) \<and>
            find_attribute (m_spec s) ''FramesPerSecond''
              = Some (AttrRational 1000 (frame_duration (hd (demux_frames d))))) \<and>
         (length (demux_frames d) \<le> 1 \<longrightarrow>
            find_attribute (m_spec s) ''oiio:Movie'' = None \<and>
            find_attribute (m_spec s) ''FramesPerSecond'' = None)"
proof -
  let ?t = "(init s0)\<lparr>m_filename := name, m_image_size := fs_file_size env,
                 m_file := Some (next_addr (init s0)),
                 open_files := next_addr (init s0) # open_files (init s0),
                 m_demux := Some (Suc (next_addr (init s0))),
                 live_demuxers := (Suc (next_addr (init s0)), d) # live_demuxers (init s0),
                 next_addr := Suc (Suc (next_addr (init s0)))\<rparr>"
  obtain w where op: "open_parsed cn dec w d ?t = Inr (True, s, sp)"
    using open_TrueD [OF assms(1)] assms(2) by auto
  have cur: "m_subimage ?t \<noteq> 0" by (simp add: init_def)
  have dm: "deref_demux ?t = Inr (Some d)" by (simp add: deref_demux_def)
  show ?thesis
    using open_parsed_spec [OF op cur dm]
    by (simp add: Let_def find_attribute_def attribute_def new_ImageSpec_def)
qed

lemma open_animation_metadata_example:
  "find_attribute (m_spec (opened_with two_frames)) ''oiio:Movie'' = Some (AttrInt 1) \<and>
   find_attribute (m_spec (opened_with two_frames)) ''FramesPerSecond''
     = Some (AttrRational 1000 40) \<and>
   find_attribute (m_spec (opened_with one_frame)) ''oiio:Movie'' = None \<and>
   find_attribute (m_spec (opened_with one_frame)) ''FramesPerSecond'' = None"
  using open_animation_metadata [OF open_two_frames [unfolded new_WebpInput_def], of two_frames]
    open_animation_metadata [OF open_one_frame [unfolded new_WebpInput_def], of one_frame]
  by (simp add: file_of_def two_frames_def one_frame_def)

text \<open>
  The spec that \<open>open\<close> hands back through its parameter \<open>spec\<close> is the copy taken
  before the seek: whatever the container, it carries the colour space and nothing
  else.
\<close>

lemma open_returned_spec:
  assumes "WebpInput_open cn dec env name s0 = Inr (ok, t, Some sp)"
  shows "\<exists>d. webp_demux env = Some d \<and>
           sp = attribute ''oiio:ColorSpace'' (AttrString ''sRGB'')
                  (new_ImageSpec (sint (canvas_width d)) (sint (canvas_height d)) 4 UINT8) \<and>
           find_attribute sp ''oiio:Movie'' = None \<and>
           find_attribute sp ''FramesPerSecond'' = None"
  using assms
  by (auto simp: WebpInput_open_def open_parsed_def fail_closed_def Let_def bindF_def
      find_attribute_def attribute_def new_ImageSpec_def
      split: if_splits option.splits prod.splits sum.splits)

text \<open>
  Claim C8 (animation metadata on the canvas spec of an opened container). On the code
  the claim fails for the canvas spec that \<open>open\<close> returns: \<open>spec = m_spec\<close> is
  executed before the attributes are set, so for a container of two frames the returned
  spec has neither oiio:Movie nor FramesPerSecond, while the member \<open>m_spec\<close> has
  oiio:Movie = 1 and FramesPerSecond = (1000, 40).
\<close>

theorem open_returns_spec_without_animation:
  "WebpInput_open stub_normalize stub_decode (file_of two_frames) ''a.webp'' new_WebpInput
     = Inr (True, opened_with two_frames,
            Some \<lparr>width = 1, height = 1, nchannels = 4, format = UINT8,
                  extra_attribs = [(''oiio:ColorSpace'', AttrString ''sRGB'')]\<rparr>) \<and>
   length (demux_frames two_frames) = 2 \<and>
   find_attribute \<lparr>width = 1, height = 1, nchannels = 4, format = UINT8,
                   extra_attribs = [(''oiio:ColorSpace'', AttrString ''sRGB'')]\<rparr>
     ''oiio:Movie'' = None \<and>
   find_attribute \<lparr>width = 1, height = 1, nchannels = 4, format = UINT8,
                   extra_attribs = [(''oiio:ColorSpace'', AttrString ''sRGB'')]\<rparr>
     ''FramesPerSecond'' = None \<and>
   find_attribute (m_spec (opened_with two_frames)) ''oiio:Movie'' = Some (AttrInt 1) \<and>
   find_attribute (m_spec (opened_with two_frames)) ''FramesPerSecond''
     = Some (AttrRational 1000 40)"
  by code_simp

subsection \<open>read\_native\_scanline\<close>

lemma open_scanline_size:
  assumes "WebpInput_open cn dec env name s0 = Inr (True, t, sp)"
    and "webp_get_info env = Some (w, h)" and "0 \<le> w" and "w < 2 ^ 29"
  shows "m_scanline_size t = w * 4"
proof -
  obtain w' h' d s where "webp_get_info env = Some (w', h')"
    and "open_parsed cn dec w' d s = Inr (True, t, sp)"
    using open_TrueD [OF assms(1)] by blast
  then have "m_scanline_size t = wrap32 (w * 4)"
    using assms(2) open_parsed_scanline_size by auto
  then show ?thesis
    using assms(3,4) by (simp add: wrap32_id)
qed

lemma row_in_raster:
  assumes "0 \<le> y" and "y < h" and "0 \<le> n" and "h * n \<le> int (length raster)"
  shows "\<not> (y * n < 0) \<and> \<not> int (length raster) < y * n + n \<and>
         length (take (nat n) (drop (nat (y * n)) raster)) = nat n"
proof -
  have "(y + 1) * n \<le> h * n"
    using assms by (intro mult_right_mono) auto
  then have le: "y * n + n \<le> int (length raster)"
    using assms(4) by (simp add: algebra_simps)
  have nn: "0 \<le> y * n" using assms by simp
  have "nat (y * n) + nat n \<le> length raster"
    using le nn assms(3) by linarith
  then show ?thesis using le nn by simp
qed

text \<open>
  Rows of a raster that covers the canvas. \<open>open\<close> sets the row stride
  \<open>m_scanline_size\<close> to four times the width that \<open>WebPGetInfo\<close> reported. For a
  read whose seek succeeds on a session whose raster holds height times stride bytes:
  a row \<open>y\<close> with \<open>0 \<le> y < height\<close> is answered with true and exactly the stride
  many bytes of the raster from offset \<open>y\<close> times stride; a row outside that range is
  answered with false and nothing is copied.
\<close>

lemma read_native_scanline_rows:
  "(WebpInput_open cn dec env name s0 = Inr (True, t, sp) \<and> webp_get_info env = Some (w, h) \<and>
      0 \<le> w \<and> w < 2 ^ 29
    \<longrightarrow> m_scanline_size t = w * 4) \<and>
   (seek_subimage dec s subimage miplevel = Inr (True, s1) \<and>
      m_decoded_image s1 = Some p \<and> map_of (live_rasters s1) p = Some raster \<and>
      0 \<le> m_scanline_size s1 \<and>
      height (m_spec s1) * m_scanline_size s1 \<le> int (length raster)
    \<longrightarrow>
      (0 \<le> y \<and> y < height (m_spec s1) \<longrightarrow>
         read_native_scanline dec s subimage miplevel y
           = Inr (True, s1,
                  Some (take (nat (m_scanline_size s1))
                          (drop (nat (y * m_scanline_size s1)) raster))) \<and>
         length (take (nat (m_scanline_size s1)) (drop (nat (y * m_scanline_size s1)) raster))
           = nat (m_scanline_size s1)) \<and>
      (y < 0 \<or> height (m_spec s1) \<le> y \<longrightarrow>
         read_native_scanline dec s subimage miplevel y = Inr (False, s1, None)))"
proof (intro conjI impI)
  assume "WebpInput_open cn dec env name s0 = Inr (True, t, sp) \<and>
          webp_get_info env = Some (w, h) \<and> 0 \<le> w \<and> w < 2 ^ 29"
  then show "m_scanline_size t = w * 4"
    using open_scanline_size by blast
next
  assume a: "seek_subimage dec s subimage miplevel = Inr (True, s1) \<and>
      m_decoded_image s1 = Some p \<and> map_of (live_rasters s1) p = Some raster \<and>
      0 \<le> m_scanline_size s1 \<and>
      height (m_spec s1) * m_scanline_size s1 \<le> int (length raster)"
    and y: "0 \<le> y \<and> y < height (m_spec s1)"
  have r: "\<not> (y * m_scanline_size s1 < 0) \<and>
           \<not> int (length raster) < y * m_scanline_size s1 + m_scanline_size s1 \<and>
           length (take (nat (m_scanline_size s1)) (drop (nat (y * m_scanline_size s1)) raster))
             = nat (m_scanline_size s1)"
    using a y by (intro row_in_raster [where h = "height (m_spec s1)"]) auto
  show "read_native_scanline dec s subimage miplevel y
           = Inr (True, s1,
                  Some (take (nat (m_scanline_size s1))
                          (drop (nat (y * m_scanline_size s1)) raster)))"
    using a y r by (simp add: read_native_scanline_def bindF_def memcpy_from_def)
  show "length (take (nat (m_scanline_size s1)) (drop (nat (y * m_scanline_size s1)) raster))
           = nat (m_scanline_size s1)"
    using r by blast
next
  assume a: "seek_subimage dec s subimage miplevel = Inr (True, s1) \<and>
      m_decoded_image s1 = Some p \<and> map_of (live_rasters s1) p = Some raster \<and>
      0 \<le> m_scanline_size s1 \<and>
      height (m_spec s1) * m_scanline_size s1 \<le> int (length raster)"
    and y: "y < 0 \<or> height (m_spec s1) \<le> y"
  show "read_native_scanline dec s subimage miplevel y = Inr (False, s1, None)"
    using a y by (auto simp: read_native_scanline_def bindF_def)
qed

lemma opened_raster:
  "m_decoded_image (opened_with two_frames) = Some 3 \<and>
   map_of (live_rasters (opened_with two_frames)) 3 = Some [0, 0, 0, 0] \<and>
   m_scanline_size (opened_with two_frames) = 4 \<and>
   height (m_spec (opened_with two_frames)) = 1 \<and>
   seek_subimage stub_decode (opened_with two_frames) 0 0 = Inr (True, opened_with two_frames)"
  by code_simp

lemma read_native_scanline_rows_example:
  "m_scanline_size (opened_with two_frames) = 1 * 4 \<and>
   read_native_scanline stub_decode (opened_with two_frames) 0 0 0
     = Inr (True, opened_with two_frames, Some [0, 0, 0, 0]) \<and>
   read_native_scanline stub_decode (opened_with two_frames) 0 0 1
     = Inr (False, opened_with two_frames, None) \<and>
   read_native_scanline stub_decode (opened_with two_frames) 0 0 (- 1)
     = Inr (False, opened_with two_frames, None)"
  using read_native_scanline_rows [where cn = stub_normalize and dec = stub_decode
      and env = "file_of two_frames" and name = "''a.webp''" and ?s0.0 = new_WebpInput
      and t = "opened_with two_frames" and w = 1 and h = 1 and s = "opened_with two_frames"
      and subimage = 0 and miplevel = 0 and ?s1.0 = "opened_with two_frames" and p = 3
      and raster = "[0, 0, 0, 0]" and y = 0]
    read_native_scanline_rows [where dec = stub_decode and s = "opened_with two_frames"
      and subimage = 0 and miplevel = 0 and ?s1.0 = "opened_with two_frames" and p = 3
      and raster = "[0, 0, 0, 0]" and y = 1]
    read_native_scanline_rows [where dec = stub_decode and s = "opened_with two_frames"
      and subimage = 0 and miplevel = 0 and ?s1.0 = "opened_with two_frames" and p = 3
      and raster = "[0, 0, 0, 0]" and y = "- 1"]
    open_two_frames opened_raster
  by (simp add: file_of_def)

text \<open>
  Claim C6 (a row inside the canvas height is copied from the current raster). On the
  code the claim fails: the row is checked against the canvas height and the stride is
  taken from the canvas width, but \<open>seek_subimage\<close> discards the size of the raster
  the decoder returned. On a canvas of two pixels whose second frame covers one pixel,
  \<open>open\<close> succeeds and row 0 of the first frame is copied (8 bytes); row 0 of the
  second frame is inside the canvas height, and the copy of 8 bytes reads beyond the
  raster of 4 bytes.
\<close>

theorem read_scanline_past_raster:
  "WebpInput_open stub_normalize stub_decode sub_frame_file ''a.webp'' new_WebpInput
     = Inr (True, opened_sub_frame,
            Some \<lparr>width = 2, height = 1, nchannels = 4, format = UINT8,
                  extra_attribs = [(''oiio:ColorSpace'', AttrString ''sRGB'')]\<rparr>) \<and>
   height (m_spec opened_sub_frame) = 1 \<and>
   m_scanline_size opened_sub_frame = 8 \<and>
   read_native_scanline stub_decode opened_sub_frame 0 0 0
     = Inr (True, opened_sub_frame, Some [0, 0, 0, 0, 0, 0, 0, 0]) \<and>
   stub_decode (frame_payload (demux_frames sub_frame ! 1)) = Some [1, 2, 3, 4] \<and>
   read_native_scanline stub_decode opened_sub_frame 1 0 0 = Inl OutOfBounds"
  by code_simp

subsection \<open>ColorNormalizer\<close>

lemma from_to_unit: "from_unit (to_unit b) = b"
proof -
  have "\<lfloor>real (unat b) + 1 / 2\<rfloor> = int (unat b)" by linarith
  then show ?thesis by (simp add: from_unit_def to_unit_def)
qed

lemma normalize_channel_opaque: "0 \<le> v \<Longrightarrow> normalize_channel v 1 = v"
  by (simp add: normalize_channel_def reencode_def premultiply_def linearize_def powr_powr)

lemma normalize_channel_transparent: "normalize_channel v 0 = 0"
  by (simp add: normalize_channel_def reencode_def premultiply_def)

lemma to_unit_nonneg: "0 \<le> to_unit b"
proof -
  have "0 \<le> real (unat b)" by (rule of_nat_0_le_iff)
  then show ?thesis unfolding to_unit_def by (rule divide_nonneg_nonneg) simp
qed

text \<open>
  Claim C7 (identity cases of the normalizer). On the transform of section 4.2: the
  alpha sample of a pixel is returned as it is; with alpha 255 the three colour samples
  are returned unchanged (on the unit interval the transform with alpha 1 is the
  identity, and rounding back to 8 bits recovers the sample); with alpha 0 the three
  colour samples become 0 whatever they were.
\<close>

theorem normalize_pixel_alpha_cases:
  "(0 \<le> v \<longrightarrow> normalize_channel v 1 = v) \<and> normalize_channel v 0 = 0 \<and>
   (case normalize_pixel (r, g, b, a) of
      (r', g', b', a') \<Rightarrow>
        a' = a \<and>
        (a = 255 \<longrightarrow> r' = r \<and> g' = g \<and> b' = b) \<and>
        (a = 0 \<longrightarrow> r' = 0 \<and> g' = 0 \<and> b' = 0))"
proof -
  have one: "to_unit 255 = 1" by (simp add: to_unit_def)
  have zero: "to_unit 0 = 0" by (simp add: to_unit_def)
  have z: "from_unit 0 = 0" by (simp add: from_unit_def)
  show ?thesis
    by (simp add: normalize_pixel_def one zero z normalize_channel_opaque to_unit_nonneg
        normalize_channel_transparent from_to_unit)
qed

theorem normalize_pixel_alpha_cases_witness:
  "normalize_channel (1 / 2) 1 = 1 / 2 \<and>
   normalize_pixel (10, 20, 30, 255) = (10, 20, 30, 255) \<and>
   normalize_pixel (10, 20, 30, 0) = (0, 0, 0, 0)"
  using normalize_pixel_alpha_cases [where v = "1 / 2" and r = 10 and g = 20 and b = 30 and a = 255]
    normalize_pixel_alpha_cases [where v = "1 / 2" and r = 10 and g = 20 and b = 30 and a = 0]
  by (auto split: prod.splits)

end
